theory Spec2Isabelle
  imports Main "HOL-Library.Sublist"
begin

section \<open>The MERIS Level 1 mapper of nansat (\<open>nansat/mappers/mapper_meris_l1.py\<close>)\<close>

text \<open>
  The module holds one class, \<open>Mapper(VRT, Envisat)\<close>, whose constructor checks the product
  identifier, builds the list \<open>metaDict\<close> of band descriptors and hands it to the raster
  container. The constructor is embedded as the function \<open>Mapper_init\<close>. The methods it
  inherits from \<open>VRT\<close> and \<open>Envisat\<close> live in other modules; what each of them returns
  is a parameter of the model, and every call the constructor makes is written to a call log.
\<close>

subsection \<open>Values, descriptors, errors\<close>

text \<open>The values the descriptor dictionaries hold: strings, integers and \<open>None\<close>.\<close>

datatype pyval = PyStr string | PyInt int | PyNone

text \<open>
  A band descriptor is a dictionary with the two keys \<open>'src'\<close> and \<open>'dst'\<close>, each holding
  a dictionary from strings to values.
\<close>

record bandDict =
  src :: "string \<rightharpoonup> pyval"
  dst :: "string \<rightharpoonup> pyval"

text \<open>
  An auxiliary raster returned by \<open>get_ads_vrts\<close>: the constructor reads its attribute
  \<open>fileName\<close> and the metadata items of band 1 of its dataset
  (\<open>adsVRT.dataset.GetRasterBand(1).GetMetadataItem(key)\<close>, which is \<open>None\<close> for a key the
  band does not carry).
\<close>

record adsVRT =
  vrt_fileName :: string
  band1_metadata :: "string \<rightharpoonup> string"

text \<open>
  The exceptions that leave the constructor: \<open>WrongMapperError\<close>, raised by the constructor
  itself; \<open>IndexError\<close>, raised by \<open>scales[i]\<close> when the list of scales is too short; and
  whatever an inherited method raises, which the constructor does not catch.
\<close>

datatype 'x error = WrongMapperError | IndexError | Propagated 'x

text \<open>The calls the constructor makes to inherited methods, with their arguments.\<close>

datatype ('ds, 'md) call =
    is_Envisat_init: Call_Envisat_init string 'md
  | is_read_scaling_gads: Call_read_scaling_gads "nat list"
  | is_get_ads_vrts: Call_get_ads_vrts 'ds "string list" int int
  | is_VRT_init: Call_VRT_init 'ds
  | is_create_bands: Call_create_bands "bandDict list"
  | is_set_envisat_time: Call_set_envisat_time 'md
  | is_add_geolocation_from_ads: Call_add_geolocation_from_ads 'ds int int

text \<open>
  What the inherited methods and the builtin \<open>str\<close> return. \<open>'ds\<close> is the type of the GDAL
  dataset, \<open>'md\<close> of the GDAL metadata, \<open>'f\<close> of a scale coefficient and \<open>'x\<close> of the
  exceptions of the inherited methods. \<open>Envisat_init\<close> returns the attribute \<open>product\<close>
  that \<open>Envisat.__init__\<close> sets on the object.
\<close>

record ('x, 'ds, 'md, 'f) collaborators =
  Envisat_init :: "string \<Rightarrow> 'md \<Rightarrow> 'x + string"
  read_scaling_gads :: "nat list \<Rightarrow> 'x + 'f list"
  py_str :: "'f \<Rightarrow> string"
  get_ads_vrts :: "'ds \<Rightarrow> string list \<Rightarrow> int \<Rightarrow> int \<Rightarrow> 'x + adsVRT list"
  VRT_init :: "'ds \<Rightarrow> 'x + unit"
  create_bands :: "bandDict list \<Rightarrow> 'x + unit"
  set_envisat_time :: "'md \<Rightarrow> 'x + unit"
  add_geolocation_from_ads :: "'ds \<Rightarrow> int \<Rightarrow> int \<Rightarrow> 'x + unit"

text \<open>
  The constructed object: the attribute \<open>subVRTs['adsVRTs']\<close> and the descriptor list that
  was registered with \<open>_create_bands\<close>.
\<close>

record mapper =
  subVRTs :: "adsVRT list"
  metaDict :: "bandDict list"

text \<open>A run of the constructor: the calls it made, in order, and how it ended.\<close>

record ('x, 'ds, 'md) run =
  calls :: "('ds, 'md) call list"
  outcome :: "'x error + mapper"

subsection \<open>The constructor\<close>

text \<open>
  The type code the default-fill loop assigns; the source names it:
  \<open>bandDict['src']['DataType'] = 2  # default for meris L1 DataType UInt16\<close>.
\<close>

definition DataType_UInt16 :: int where
  "DataType_UInt16 = 2"

text \<open>The list literal bound to \<open>metaDict\<close> (lines 48 to 96).\<close>

definition metaDict_literal :: "string \<Rightarrow> bandDict list" where
  "metaDict_literal fileName =
    [\<lparr>src = [''SourceFilename'' \<mapsto> PyStr fileName, ''SourceBand'' \<mapsto> PyInt 1],
      dst = [''wkv'' \<mapsto> PyStr ''toa_outgoing_spectral_radiance'',
             ''wavelength'' \<mapsto> PyStr ''413'']\<rparr>,
     \<lparr>src = [''SourceFilename'' \<mapsto> PyStr fileName, ''SourceBand'' \<mapsto> PyInt 2],
      dst = [''wkv'' \<mapsto> PyStr ''toa_outgoing_spectral_radiance'',
             ''wavelength'' \<mapsto> PyStr ''443'']\<rparr>,
     \<lparr>src = [''SourceFilename'' \<mapsto> PyStr fileName, ''SourceBand'' \<mapsto> PyInt 3],
      dst = [''wkv'' \<mapsto> PyStr ''toa_outgoing_spectral_radiance'',
             ''wavelength'' \<mapsto> PyStr ''490'']\<rparr>,
     \<lparr>src = [''SourceFilename'' \<mapsto> PyStr fileName, ''SourceBand'' \<mapsto> PyInt 4],
      dst = [''wkv'' \<mapsto> PyStr ''toa_outgoing_spectral_radiance'',
             ''wavelength'' \<mapsto> PyStr ''510'']\<rparr>,
     \<lparr>src = [''SourceFilename'' \<mapsto> PyStr fileName, ''SourceBand'' \<mapsto> PyInt 5],
      dst = [''wkv'' \<mapsto> PyStr ''toa_outgoing_spectral_radiance'',
             ''wavelength'' \<mapsto> PyStr ''560'']\<rparr>,
     \<lparr>src = [''SourceFilename'' \<mapsto> PyStr fileName, ''SourceBand'' \<mapsto> PyInt 6],
      dst = [''wkv'' \<mapsto> PyStr ''toa_outgoing_spectral_radiance'',
             ''wavelength'' \<mapsto> PyStr ''620'']\<rparr>,
     \<lparr>src = [''SourceFilename'' \<mapsto> PyStr fileName, ''SourceBand'' \<mapsto> PyInt 7],
      dst = [''wkv'' \<mapsto> PyStr ''toa_outgoing_spectral_radiance'',
             ''wavelength'' \<mapsto> PyStr ''665'']\<rparr>,
     \<lparr>src = [''SourceFilename'' \<mapsto> PyStr fileName, ''SourceBand'' \<mapsto> PyInt 8],
      dst = [''wkv'' \<mapsto> PyStr ''toa_outgoing_spectral_radiance'',
             ''wavelength'' \<mapsto> PyStr ''681'']\<rparr>,
     \<lparr>src = [''SourceFilename'' \<mapsto> PyStr fileName, ''SourceBand'' \<mapsto> PyInt 9],
      dst = [''wkv'' \<mapsto> PyStr ''toa_outgoing_spectral_radiance'',
             ''wavelength'' \<mapsto> PyStr ''709'']\<rparr>,
     \<lparr>src = [''SourceFilename'' \<mapsto> PyStr fileName, ''SourceBand'' \<mapsto> PyInt 10],
      dst = [''wkv'' \<mapsto> PyStr ''toa_outgoing_spectral_radiance'',
             ''wavelength'' \<mapsto> PyStr ''753'']\<rparr>,
     \<lparr>src = [''SourceFilename'' \<mapsto> PyStr fileName, ''SourceBand'' \<mapsto> PyInt 11],
      dst = [''wkv'' \<mapsto> PyStr ''toa_outgoing_spectral_radiance'',
             ''wavelength'' \<mapsto> PyStr ''761'']\<rparr>,
     \<lparr>src = [''SourceFilename'' \<mapsto> PyStr fileName, ''SourceBand'' \<mapsto> PyInt 12],
      dst = [''wkv'' \<mapsto> PyStr ''toa_outgoing_spectral_radiance'',
             ''wavelength'' \<mapsto> PyStr ''778'']\<rparr>,
     \<lparr>src = [''SourceFilename'' \<mapsto> PyStr fileName, ''SourceBand'' \<mapsto> PyInt 13],
      dst = [''wkv'' \<mapsto> PyStr ''toa_outgoing_spectral_radiance'',
             ''wavelength'' \<mapsto> PyStr ''864'']\<rparr>,
     \<lparr>src = [''SourceFilename'' \<mapsto> PyStr fileName, ''SourceBand'' \<mapsto> PyInt 14],
      dst = [''wkv'' \<mapsto> PyStr ''toa_outgoing_spectral_radiance'',
             ''wavelength'' \<mapsto> PyStr ''849'']\<rparr>,
     \<lparr>src = [''SourceFilename'' \<mapsto> PyStr fileName, ''SourceBand'' \<mapsto> PyInt 15],
      dst = [''wkv'' \<mapsto> PyStr ''toa_outgoing_spectral_radiance'',
             ''wavelength'' \<mapsto> PyStr ''900'']\<rparr>,
     \<lparr>src = [''SourceFilename'' \<mapsto> PyStr fileName, ''SourceBand'' \<mapsto> PyInt 16,
             ''DataType'' \<mapsto> PyInt 1],
      dst = [''wkv'' \<mapsto> PyStr ''quality_flags'', ''suffix'' \<mapsto> PyStr ''l1'']\<rparr>]"

text \<open>
  The body of the loop \<open>for bandDict in metaDict\<close> (lines 100 to 103): it fills in the
  \<open>DataType\<close> of a source that has none and copies the wavelength of a destination that
  has one to its suffix.
\<close>

definition add_DataType_suffix :: "bandDict \<Rightarrow> bandDict" where
  "add_DataType_suffix bandDict =
    (let bandDict1 =
       (if src bandDict ''DataType'' = None
        then bandDict\<lparr>src := (src bandDict)(''DataType'' \<mapsto> PyInt 2)\<rparr>
        else bandDict)
     in case dst bandDict1 ''wavelength'' of
          Some wavelength \<Rightarrow> bandDict1\<lparr>dst := (dst bandDict1)(''suffix'' \<mapsto> wavelength)\<rparr>
        | None \<Rightarrow> bandDict1)"

text \<open>
  The loop \<open>for i, bandDict in enumerate(metaDict[:-1])\<close> (lines 108 and 109), over the
  pairs that \<open>enumerate\<close> yields. \<open>scales[i]\<close> raises \<open>IndexError\<close> beyond the end of
  \<open>scales\<close>.
\<close>

fun set_ScaleRatio ::
  "('f \<Rightarrow> string) \<Rightarrow> 'f list \<Rightarrow> (nat \<times> bandDict) list \<Rightarrow> 'x error + bandDict list" where
  "set_ScaleRatio str scales [] = Inr []"
| "set_ScaleRatio str scales ((i, bandDict) # rest) =
    (if i < length scales
     then (case set_ScaleRatio str scales rest of
             Inl e \<Rightarrow> Inl e
           | Inr rest' \<Rightarrow>
               Inr (bandDict\<lparr>src := (src bandDict)(''ScaleRatio'' \<mapsto> PyStr (str (scales ! i)))\<rparr>
                    # rest'))
     else Inl IndexError)"

text \<open>\<open>GetMetadataItem\<close> returns a string, or \<open>None\<close> for an item that is not there.\<close>

definition GetMetadataItem :: "(string \<rightharpoonup> string) \<Rightarrow> string \<Rightarrow> pyval" where
  "GetMetadataItem md key = (case md key of Some s \<Rightarrow> PyStr s | None \<Rightarrow> PyNone)"

text \<open>The descriptor appended for one auxiliary raster (lines 121 to 127).\<close>

definition ads_bandDict :: "adsVRT \<Rightarrow> bandDict" where
  "ads_bandDict adsVRT =
    \<lparr>src = [''SourceFilename'' \<mapsto> PyStr (vrt_fileName adsVRT), ''SourceBand'' \<mapsto> PyInt 1],
     dst = [''name'' \<mapsto> GetMetadataItem (band1_metadata adsVRT) ''name'',
            ''units'' \<mapsto> GetMetadataItem (band1_metadata adsVRT) ''units'']\<rparr>"

text \<open>The four fields requested from \<open>get_ads_vrts\<close> (lines 113 to 116).\<close>

definition adsNames :: "string list" where
  "adsNames = [''sun zenith angles'', ''sun azimuth angles'', ''zonal winds'',
               ''meridional winds'']"

text \<open>
  \<open>Mapper.__init__\<close>. The slice \<open>metaDict[:-1]\<close> is a new list of the same dictionaries, so
  the loop over it updates all entries of \<open>metaDict\<close> but the last. An exception ends the run
  with the calls made so far.
\<close>

definition Mapper_init ::
  "('x, 'ds, 'md, 'f) collaborators \<Rightarrow> string \<Rightarrow> 'ds \<Rightarrow> 'md \<Rightarrow> bool \<Rightarrow> int \<Rightarrow> int
    \<Rightarrow> ('x, 'ds, 'md) run" where
  "Mapper_init c fileName gdalDataset gdalMetadata geolocation zoomSize step =
    (let log1 = [Call_Envisat_init fileName gdalMetadata] in
     case Envisat_init c fileName gdalMetadata of
       Inl x \<Rightarrow> \<lparr>calls = log1, outcome = Inl (Propagated x)\<rparr>
     | Inr product \<Rightarrow>
      (if take 9 product \<noteq> ''MER_FRS_1'' \<and> take 9 product \<noteq> ''MER_RR__1''
       then \<lparr>calls = log1, outcome = Inl WrongMapperError\<rparr>
       else
      (let metaDict1 = map add_DataType_suffix (metaDict_literal fileName);
           log2 = log1 @ [Call_read_scaling_gads [7..<22]] in
       case read_scaling_gads c [7..<22] of
         Inl x \<Rightarrow> \<lparr>calls = log2, outcome = Inl (Propagated x)\<rparr>
       | Inr scales \<Rightarrow>
      (case set_ScaleRatio (py_str c) scales (enumerate 0 (butlast metaDict1)) of
         Inl e \<Rightarrow> \<lparr>calls = log2, outcome = Inl e\<rparr>
       | Inr radiances \<Rightarrow>
      (let metaDict2 = radiances @ drop (length radiances) metaDict1;
           log3 = log2 @ [Call_get_ads_vrts gdalDataset adsNames zoomSize step] in
       case get_ads_vrts c gdalDataset adsNames zoomSize step of
         Inl x \<Rightarrow> \<lparr>calls = log3, outcome = Inl (Propagated x)\<rparr>
       | Inr adsVRTs \<Rightarrow>
      (let metaDict3 = metaDict2 @ map ads_bandDict adsVRTs;
           log4 = log3 @ [Call_VRT_init gdalDataset] in
       case VRT_init c gdalDataset of
         Inl x \<Rightarrow> \<lparr>calls = log4, outcome = Inl (Propagated x)\<rparr>
       | Inr _ \<Rightarrow>
      (let log5 = log4 @ [Call_create_bands metaDict3] in
       case create_bands c metaDict3 of
         Inl x \<Rightarrow> \<lparr>calls = log5, outcome = Inl (Propagated x)\<rparr>
       | Inr _ \<Rightarrow>
      (let log6 = log5 @ [Call_set_envisat_time gdalMetadata] in
       case set_envisat_time c gdalMetadata of
         Inl x \<Rightarrow> \<lparr>calls = log6, outcome = Inl (Propagated x)\<rparr>
       | Inr _ \<Rightarrow>
      (if geolocation
       then
        (let log7 = log6 @ [Call_add_geolocation_from_ads gdalDataset zoomSize step] in
         case add_geolocation_from_ads c gdalDataset zoomSize step of
           Inl x \<Rightarrow> \<lparr>calls = log7, outcome = Inl (Propagated x)\<rparr>
         | Inr _ \<Rightarrow>
             \<lparr>calls = log7, outcome = Inr \<lparr>subVRTs = adsVRTs, metaDict = metaDict3\<rparr>\<rparr>)
       else \<lparr>calls = log6,
             outcome = Inr \<lparr>subVRTs = adsVRTs, metaDict = metaDict3\<rparr>\<rparr>)))))))))"

subsection \<open>A concrete environment\<close>

text \<open>
  Inherited methods that all succeed, for running the constructor on examples: the product
  identifier is the metadata value itself, the scale coefficients are \<open>1.0\<close> to \<open>15.0\<close>
  already printed, and \<open>get_ads_vrts\<close> returns one raster for each requested field, whose
  band 1 carries a \<open>name\<close> and no \<open>units\<close>.
\<close>

definition demo :: "(string, string, string, string) collaborators" where
  "demo =
    \<lparr>Envisat_init = (\<lambda>fileName gdalMetadata. Inr gdalMetadata),
     read_scaling_gads = (\<lambda>indeces. Inr [''1.0'', ''2.0'', ''3.0'', ''4.0'', ''5.0'', ''6.0'',
        ''7.0'', ''8.0'', ''9.0'', ''10.0'', ''11.0'', ''12.0'', ''13.0'', ''14.0'', ''15.0'']),
     py_str = (\<lambda>s. s),
     get_ads_vrts = (\<lambda>gdalDataset names zoomSize step.
        Inr (map (\<lambda>name. \<lparr>vrt_fileName = ''/vsimem/'' @ name,
                            band1_metadata = [''name'' \<mapsto> name]\<rparr>) names)),
     VRT_init = (\<lambda>gdalDataset. Inr ()),
     create_bands = (\<lambda>bands. Inr ()),
     set_envisat_time = (\<lambda>gdalMetadata. Inr ()),
     add_geolocation_from_ads = (\<lambda>gdalDataset zoomSize step. Inr ())\<rparr>"

section \<open>Properties\<close>

subsection \<open>The two loops\<close>

lemma dst_add_DataType_suffix:
  "dst (add_DataType_suffix b) =
     (case dst b ''wavelength'' of Some w \<Rightarrow> (dst b)(''suffix'' \<mapsto> w) | None \<Rightarrow> dst b)"
  by (auto simp: add_DataType_suffix_def Let_def split: option.splits)

lemma src_add_DataType_suffix:
  "src (add_DataType_suffix b) =
     (if src b ''DataType'' = None then (src b)(''DataType'' \<mapsto> PyInt 2) else src b)"
  by (auto simp: add_DataType_suffix_def Let_def split: option.splits)

lemma set_ScaleRatio_Inl: "set_ScaleRatio str scales ps = Inl e \<Longrightarrow> e = IndexError"
  by (induction ps arbitrary: e) (auto split: if_splits sum.splits)

lemma set_ScaleRatio_Inr:
  "set_ScaleRatio str scales ps = Inr bs \<Longrightarrow>
     bs = map (\<lambda>(i, b). b\<lparr>src := (src b)(''ScaleRatio'' \<mapsto> PyStr (str (scales ! i)))\<rparr>) ps
     \<and> (\<forall>(i, b) \<in> set ps. i < length scales)"
  by (induction ps arbitrary: bs) (auto split: if_splits sum.splits)

lemma set_ScaleRatio_ok:
  "\<forall>(i, b) \<in> set ps. i < length scales \<Longrightarrow>
   set_ScaleRatio str scales ps =
     Inr (map (\<lambda>(i, b). b\<lparr>src := (src b)(''ScaleRatio'' \<mapsto> PyStr (str (scales ! i)))\<rparr>) ps)"
  by (induction ps) (auto split: if_splits sum.splits)

lemma length_metaDict_literal: "length (metaDict_literal fileName) = 16"
  by (simp add: metaDict_literal_def)

lemma enumerate_butlast16:
  "length xs = 16 \<Longrightarrow> \<forall>(i, b) \<in> set (enumerate 0 (butlast xs)). i < 15"
  by (auto simp: in_set_enumerate_eq)

lemma take9_prefix: "length lit = 9 \<Longrightarrow> (take 9 p = lit) = prefix lit p"
  by (metis append_eq_conv_conj prefix_def)

subsection \<open>Runs of the constructor\<close>

lemma Mapper_init_rejected:
  assumes "Envisat_init c fileName gdalMetadata = Inr product"
    and "take 9 product \<noteq> ''MER_FRS_1''" and "take 9 product \<noteq> ''MER_RR__1''"
  shows "Mapper_init c fileName gdalDataset gdalMetadata geolocation zoomSize step =
           \<lparr>calls = [Call_Envisat_init fileName gdalMetadata], outcome = Inl WrongMapperError\<rparr>"
  using assms by (simp add: Mapper_init_def)

lemma Mapper_init_accepted:
  assumes "Envisat_init c fileName gdalMetadata = Inr product"
    and "take 9 product = ''MER_FRS_1'' \<or> take 9 product = ''MER_RR__1''"
  shows "outcome (Mapper_init c fileName gdalDataset gdalMetadata geolocation zoomSize step)
           \<noteq> Inl WrongMapperError"
  using assms
  by (auto simp: Mapper_init_def Let_def split: sum.splits dest: set_ScaleRatio_Inl)

lemma Mapper_init_success:
  fixes c :: "('x, 'ds, 'md, 'f) collaborators"
  assumes "outcome (Mapper_init c fileName gdalDataset gdalMetadata geolocation zoomSize step) = Inr m"
  obtains product scales radiances where
    "Envisat_init c fileName gdalMetadata = Inr product"
    "take 9 product = ''MER_FRS_1'' \<or> take 9 product = ''MER_RR__1''"
    "read_scaling_gads c [7..<22] = Inr scales"
    "(set_ScaleRatio (py_str c) scales
       (enumerate 0 (butlast (map add_DataType_suffix (metaDict_literal fileName))))
        :: 'x error + bandDict list) = Inr radiances"
    "get_ads_vrts c gdalDataset adsNames zoomSize step = Inr (subVRTs m)"
    "metaDict m = radiances @ drop (length radiances) (map add_DataType_suffix (metaDict_literal fileName))
                   @ map ads_bandDict (subVRTs m)"
  using assms
  by (auto simp: Mapper_init_def Let_def split: sum.splits if_splits)

lemma calls_success:
  assumes "outcome (Mapper_init c fileName gdalDataset gdalMetadata geolocation zoomSize step) = Inr m"
  shows "calls (Mapper_init c fileName gdalDataset gdalMetadata geolocation zoomSize step) =
    [Call_Envisat_init fileName gdalMetadata, Call_read_scaling_gads [7..<22],
     Call_get_ads_vrts gdalDataset adsNames zoomSize step, Call_VRT_init gdalDataset,
     Call_create_bands (metaDict m), Call_set_envisat_time gdalMetadata]
    @ (if geolocation then [Call_add_geolocation_from_ads gdalDataset zoomSize step] else [])"
  using assms
  by (auto simp: Mapper_init_def Let_def split: sum.splits if_splits)


lemma Mapper_init_Inr:
  fixes c :: "('x, 'ds, 'md, 'f) collaborators"
  assumes "Envisat_init c fileName gdalMetadata = Inr product"
    and "take 9 product = ''MER_FRS_1'' \<or> take 9 product = ''MER_RR__1''"
    and "read_scaling_gads c [7..<22] = Inr scales" and "15 \<le> length scales"
    and "get_ads_vrts c gdalDataset adsNames zoomSize step = Inr adsVRTs"
    and "VRT_init c gdalDataset = Inr u1"
    and "\<And>bs. create_bands c bs = Inr u2"
    and "set_envisat_time c gdalMetadata = Inr u3"
    and "add_geolocation_from_ads c gdalDataset zoomSize step = Inr u4"
  shows "\<exists>m. outcome (Mapper_init c fileName gdalDataset gdalMetadata geolocation zoomSize step) = Inr m
            \<and> subVRTs m = adsVRTs"
proof -
  let ?M1 = "map add_DataType_suffix (metaDict_literal fileName)"
  have "\<forall>(i, b) \<in> set (enumerate 0 (butlast ?M1)). i < length scales"
    using enumerate_butlast16[of ?M1] assms(4) by (fastforce simp: length_metaDict_literal)
  from set_ScaleRatio_ok[OF this, of "py_str c"]
  obtain rs where rs: "(set_ScaleRatio (py_str c) scales (enumerate 0 (butlast ?M1))
      :: 'x error + bandDict list) = Inr rs"
    by blast
  have nw: "\<not> (take 9 product \<noteq> ''MER_FRS_1'' \<and> take 9 product \<noteq> ''MER_RR__1'')"
    using assms(2) by blast
  show ?thesis
    unfolding Mapper_init_def Let_def
    by (simp only: assms(1,3,5,6,7,8,9) rs nw sum.case if_False run.simps mapper.simps
          split: if_split) simp
qed

lemma metaDict_static:
  fixes c :: "('x, 'ds, 'md, 'f) collaborators"
  assumes "outcome (Mapper_init c fileName gdalDataset gdalMetadata geolocation zoomSize step) = Inr m"
  shows "\<exists>scales. read_scaling_gads c [7..<22] = Inr scales \<and> 15 \<le> length scales \<and>
     metaDict m =
       map (\<lambda>(i, b). b\<lparr>src := (src b)(''ScaleRatio'' \<mapsto> PyStr (py_str c (scales ! i)))\<rparr>)
           (enumerate 0 (take 15 (map add_DataType_suffix (metaDict_literal fileName))))
       @ [add_DataType_suffix (metaDict_literal fileName ! 15)]
       @ map ads_bandDict (subVRTs m)"
proof -
  let ?M1 = "map add_DataType_suffix (metaDict_literal fileName)"
  from assms obtain product scales radiances where
    sc: "read_scaling_gads c [7..<22] = Inr scales" and
    rad: "(set_ScaleRatio (py_str c) scales (enumerate 0 (butlast ?M1))
            :: 'x error + bandDict list) = Inr radiances" and
    md: "metaDict m = radiances @ drop (length radiances) ?M1 @ map ads_bandDict (subVRTs m)"
    by (rule Mapper_init_success)
  have bl: "butlast ?M1 = take 15 ?M1"
    by (simp add: butlast_conv_take length_metaDict_literal)
  from set_ScaleRatio_Inr[OF rad]
  have r1: "radiances = map (\<lambda>(i, b). b\<lparr>src := (src b)(''ScaleRatio'' \<mapsto> PyStr (py_str c (scales ! i)))\<rparr>)
           (enumerate 0 (take 15 ?M1))"
    and r2: "\<forall>(i, b) \<in> set (enumerate 0 (take 15 ?M1)). i < length scales"
    by (simp_all add: bl)
  have "(14, ?M1 ! 14) \<in> set (enumerate 0 (take 15 ?M1))"
    by (simp add: in_set_enumerate_eq length_metaDict_literal)
  with r2 have len: "15 \<le> length scales" by fastforce
  have lr: "length radiances = 15" by (simp add: r1 length_metaDict_literal)
  have "drop 15 ?M1 = [add_DataType_suffix (metaDict_literal fileName ! 15)]"
    by (simp add: metaDict_literal_def)
  with sc len md r1 lr show ?thesis by simp
qed

lemma metaDict_nth:
  fixes c :: "('x, 'ds, 'md, 'f) collaborators"
  assumes "outcome (Mapper_init c fileName gdalDataset gdalMetadata geolocation zoomSize step) = Inr m"
  shows "\<exists>scales. read_scaling_gads c [7..<22] = Inr scales \<and> 15 \<le> length scales \<and>
     length (metaDict m) = 16 + length (subVRTs m) \<and>
     (\<forall>i<15. metaDict m ! i =
        (add_DataType_suffix (metaDict_literal fileName ! i))
          \<lparr>src := (src (add_DataType_suffix (metaDict_literal fileName ! i)))
                    (''ScaleRatio'' \<mapsto> PyStr (py_str c (scales ! i)))\<rparr>) \<and>
     metaDict m ! 15 = add_DataType_suffix (metaDict_literal fileName ! 15) \<and>
     drop 16 (metaDict m) = map ads_bandDict (subVRTs m)"
proof -
  let ?M1 = "map add_DataType_suffix (metaDict_literal fileName)"
  from metaDict_static[OF assms] obtain scales where
    sc: "read_scaling_gads c [7..<22] = Inr scales" and len: "15 \<le> length scales" and
    md: "metaDict m =
       map (\<lambda>(i, b). b\<lparr>src := (src b)(''ScaleRatio'' \<mapsto> PyStr (py_str c (scales ! i)))\<rparr>)
           (enumerate 0 (take 15 ?M1))
       @ [add_DataType_suffix (metaDict_literal fileName ! 15)]
       @ map ads_bandDict (subVRTs m)"
    by blast
  have a: "length (metaDict m) = 16 + length (subVRTs m)"
    by (simp add: md length_metaDict_literal)
  have b: "\<forall>i<15. metaDict m ! i =
        (add_DataType_suffix (metaDict_literal fileName ! i))
          \<lparr>src := (src (add_DataType_suffix (metaDict_literal fileName ! i)))
                    (''ScaleRatio'' \<mapsto> PyStr (py_str c (scales ! i)))\<rparr>"
    by (simp add: md nth_append length_metaDict_literal nth_enumerate_eq)
  have c: "metaDict m ! 15 = add_DataType_suffix (metaDict_literal fileName ! 15)"
    by (simp add: md nth_append length_metaDict_literal)
  have d: "drop 16 (metaDict m) = map ads_bandDict (subVRTs m)"
    by (simp add: md length_metaDict_literal)
  from sc len a b c d show ?thesis by blast
qed

lemma demo_succeeds:
  assumes "take 9 gdalMetadata = ''MER_FRS_1'' \<or> take 9 gdalMetadata = ''MER_RR__1''"
  shows "\<exists>m. outcome (Mapper_init demo fileName gdalDataset gdalMetadata geolocation zoomSize step) = Inr m
      \<and> subVRTs m = map (\<lambda>name. \<lparr>vrt_fileName = ''/vsimem/'' @ name,
                            band1_metadata = [''name'' \<mapsto> name]\<rparr>) adsNames"
proof (rule Mapper_init_Inr[OF _ assms, where scales = "[''1.0'', ''2.0'', ''3.0'', ''4.0'',
        ''5.0'', ''6.0'', ''7.0'', ''8.0'', ''9.0'', ''10.0'', ''11.0'', ''12.0'', ''13.0'',
        ''14.0'', ''15.0'']"
        and ?u1.0 = "()" and ?u2.0 = "()" and ?u3.0 = "()" and ?u4.0 = "()"])
qed (simp_all add: demo_def)

subsection \<open>Recognition of the product\<close>

text \<open>
  Claim C1. When \<open>Envisat.__init__\<close> has read the product identifier, the constructor ends
  with \<open>WrongMapperError\<close> if and only if the first 9 characters of the identifier are
  neither \<open>MER_FRS_1\<close> nor \<open>MER_RR__1\<close>.
\<close>

theorem WrongMapperError_iff:
  assumes "Envisat_init c fileName gdalMetadata = Inr product"
  shows "outcome (Mapper_init c fileName gdalDataset gdalMetadata geolocation zoomSize step)
           = Inl WrongMapperError
         \<longleftrightarrow> take 9 product \<noteq> ''MER_FRS_1'' \<and> take 9 product \<noteq> ''MER_RR__1''"
proof (cases "take 9 product = ''MER_FRS_1'' \<or> take 9 product = ''MER_RR__1''")
  case True
  from Mapper_init_accepted[OF assms True] True show ?thesis by blast
next
  case False
  then have "take 9 product \<noteq> ''MER_FRS_1''" and "take 9 product \<noteq> ''MER_RR__1''"
    by simp_all
  from Mapper_init_rejected[OF assms this] False show ?thesis by simp
qed

theorem WrongMapperError_iff_witness:
  "Envisat_init demo ''a.N1'' ''ASA_WSM_1PNPDE2004'' = Inr ''ASA_WSM_1PNPDE2004''
   \<and> outcome (Mapper_init demo ''a.N1'' ''ds'' ''ASA_WSM_1PNPDE2004'' False 500 1)
       = Inl WrongMapperError
   \<and> Envisat_init demo ''m.N1'' ''MER_RR__1PQBCM2004'' = Inr ''MER_RR__1PQBCM2004''
   \<and> outcome (Mapper_init demo ''m.N1'' ''ds'' ''MER_RR__1PQBCM2004'' False 500 1)
       \<noteq> Inl WrongMapperError"
proof -
  have a: "Envisat_init demo ''a.N1'' ''ASA_WSM_1PNPDE2004'' = Inr ''ASA_WSM_1PNPDE2004''"
    and m: "Envisat_init demo ''m.N1'' ''MER_RR__1PQBCM2004'' = Inr ''MER_RR__1PQBCM2004''"
    by (simp_all add: demo_def)
  from WrongMapperError_iff[OF a, of "''ds''" False 500 1]
       WrongMapperError_iff[OF m, of "''ds''" False 500 1] a m
  show ?thesis by simp
qed

text \<open>
  Claim C8. When the product identifier starts with neither \<open>MER_FRS_1\<close> nor
  \<open>MER_RR__1\<close>, the constructor ends with \<open>WrongMapperError\<close> and the only call it has
  made is \<open>Envisat.__init__\<close>: no scale coefficient was read, no auxiliary grid was
  requested and \<open>VRT.__init__\<close> was not called.
\<close>

theorem rejected_before_construction:
  assumes "Envisat_init c fileName gdalMetadata = Inr product"
    and "\<not> prefix ''MER_FRS_1'' product" and "\<not> prefix ''MER_RR__1'' product"
  shows "outcome (Mapper_init c fileName gdalDataset gdalMetadata geolocation zoomSize step)
           = Inl WrongMapperError
       \<and> calls (Mapper_init c fileName gdalDataset gdalMetadata geolocation zoomSize step)
           = [Call_Envisat_init fileName gdalMetadata]"
proof -
  from assms(2,3) have "take 9 product \<noteq> ''MER_FRS_1''" and "take 9 product \<noteq> ''MER_RR__1''"
    by (simp_all add: take9_prefix)
  from Mapper_init_rejected[OF assms(1) this] show ?thesis by simp
qed

theorem rejected_before_construction_witness:
  "Envisat_init demo ''a.N1'' ''ASA_WSM_1PNPDE2004'' = Inr ''ASA_WSM_1PNPDE2004''
   \<and> \<not> prefix ''MER_FRS_1'' ''ASA_WSM_1PNPDE2004''
   \<and> \<not> prefix ''MER_RR__1'' ''ASA_WSM_1PNPDE2004''
   \<and> outcome (Mapper_init demo ''a.N1'' ''ds'' ''ASA_WSM_1PNPDE2004'' True 500 1)
       = Inl WrongMapperError
   \<and> calls (Mapper_init demo ''a.N1'' ''ds'' ''ASA_WSM_1PNPDE2004'' True 500 1)
       = [Call_Envisat_init ''a.N1'' ''ASA_WSM_1PNPDE2004'']"
proof -
  have a: "Envisat_init demo ''a.N1'' ''ASA_WSM_1PNPDE2004'' = Inr ''ASA_WSM_1PNPDE2004''"
    by (simp add: demo_def)
  have f: "\<not> prefix ''MER_FRS_1'' ''ASA_WSM_1PNPDE2004''"
    and r: "\<not> prefix ''MER_RR__1'' ''ASA_WSM_1PNPDE2004''"
    by simp_all
  from rejected_before_construction[OF a f r, of "''ds''" True 500 1] a f r
  show ?thesis by simp
qed

text \<open>
  Claim C9. A product identifier of fewer than 9 characters makes the constructor end with
  \<open>WrongMapperError\<close>, not with an index error: the slice \<open>product[0:9]\<close> of such a string
  is the string itself, which equals neither literal.
\<close>

theorem short_product_rejected:
  assumes "Envisat_init c fileName gdalMetadata = Inr product" and "length product < 9"
  shows "take 9 product = product
       \<and> product \<noteq> ''MER_FRS_1'' \<and> product \<noteq> ''MER_RR__1''
       \<and> outcome (Mapper_init c fileName gdalDataset gdalMetadata geolocation zoomSize step)
           = Inl WrongMapperError"
proof -
  from assms(2) have t: "take 9 product = product" by simp
  from assms(2) have n: "product \<noteq> ''MER_FRS_1''" "product \<noteq> ''MER_RR__1''" by auto
  with t have "take 9 product \<noteq> ''MER_FRS_1''" and "take 9 product \<noteq> ''MER_RR__1''"
    by simp_all
  from Mapper_init_rejected[OF assms(1) this] t n show ?thesis by simp
qed

theorem short_product_rejected_witness:
  "Envisat_init demo ''s.N1'' ''MER_FRS_'' = Inr ''MER_FRS_'' \<and> length ''MER_FRS_'' < 9
   \<and> outcome (Mapper_init demo ''s.N1'' ''ds'' ''MER_FRS_'' False 500 1) = Inl WrongMapperError"
proof -
  have a: "Envisat_init demo ''s.N1'' ''MER_FRS_'' = Inr ''MER_FRS_''"
    by (simp add: demo_def)
  have l: "length ''MER_FRS_'' < 9" by simp
  from short_product_rejected[OF a l, of "''ds''" False 500 1] a l
  show ?thesis by simp
qed

subsection \<open>The static table\<close>

text \<open>
  Claim C3. After a successful construction the descriptor list holds 16 static entries
  followed by one entry for each auxiliary raster. Entries 1 to 15 are tagged
  \<open>toa_outgoing_spectral_radiance\<close>, carry the wavelengths 413, 443, 490, 510, 560, 620,
  665, 681, 709, 753, 761, 778, 864, 849, 900 in this order and the source bands 1 to 15;
  entry 16 is tagged \<open>quality_flags\<close>, has source band 16 and the suffix \<open>l1\<close>.
\<close>

theorem static_table:
  assumes "outcome (Mapper_init c fileName gdalDataset gdalMetadata geolocation zoomSize step) = Inr m"
  shows "length (metaDict_literal fileName) = 16
       \<and> length (metaDict m) = 16 + length (subVRTs m)
       \<and> map (\<lambda>b. dst b ''wkv'') (take 15 (metaDict m))
           = replicate 15 (Some (PyStr ''toa_outgoing_spectral_radiance''))
       \<and> map (\<lambda>b. dst b ''wavelength'') (take 15 (metaDict m))
           = map (\<lambda>w. Some (PyStr w)) [''413'', ''443'', ''490'', ''510'', ''560'', ''620'',
               ''665'', ''681'', ''709'', ''753'', ''761'', ''778'', ''864'', ''849'', ''900'']
       \<and> map (\<lambda>b. src b ''SourceBand'') (take 15 (metaDict m))
           = map (\<lambda>n. Some (PyInt n)) [1, 2, 3, 4, 5, 6, 7, 8, 9, 10, 11, 12, 13, 14, 15]
       \<and> dst (metaDict m ! 15) ''wkv'' = Some (PyStr ''quality_flags'')
       \<and> src (metaDict m ! 15) ''SourceBand'' = Some (PyInt 16)
       \<and> dst (metaDict m ! 15) ''suffix'' = Some (PyStr ''l1'')"
proof -
  from metaDict_static[OF assms] obtain scales where
    md: "metaDict m =
       map (\<lambda>(i, b). b\<lparr>src := (src b)(''ScaleRatio'' \<mapsto> PyStr (py_str c (scales ! i)))\<rparr>)
           (enumerate 0 (take 15 (map add_DataType_suffix (metaDict_literal fileName))))
       @ [add_DataType_suffix (metaDict_literal fileName ! 15)]
       @ map ads_bandDict (subVRTs m)"
    by blast
  have t15: "take 15 (metaDict m) =
       map (\<lambda>(i, b). b\<lparr>src := (src b)(''ScaleRatio'' \<mapsto> PyStr (py_str c (scales ! i)))\<rparr>)
           (enumerate 0 (take 15 (map add_DataType_suffix (metaDict_literal fileName))))"
    by (simp add: md length_metaDict_literal)
  have n15: "metaDict m ! 15 = add_DataType_suffix (metaDict_literal fileName ! 15)"
    by (simp add: md nth_append length_metaDict_literal)
  have 1: "length (metaDict m) = 16 + length (subVRTs m)"
    by (simp add: md length_metaDict_literal)
  have 2: "map (\<lambda>b. dst b ''wkv'') (take 15 (metaDict m))
           = replicate 15 (Some (PyStr ''toa_outgoing_spectral_radiance''))"
    unfolding t15 by (simp add: metaDict_literal_def dst_add_DataType_suffix numeral_eq_Suc)
  have 3: "map (\<lambda>b. dst b ''wavelength'') (take 15 (metaDict m))
           = map (\<lambda>w. Some (PyStr w)) [''413'', ''443'', ''490'', ''510'', ''560'', ''620'',
               ''665'', ''681'', ''709'', ''753'', ''761'', ''778'', ''864'', ''849'', ''900'']"
    unfolding t15 by (simp add: metaDict_literal_def dst_add_DataType_suffix)
  have 4: "map (\<lambda>b. src b ''SourceBand'') (take 15 (metaDict m))
           = map (\<lambda>n. Some (PyInt n)) [1, 2, 3, 4, 5, 6, 7, 8, 9, 10, 11, 12, 13, 14, 15]"
    unfolding t15 by (simp add: metaDict_literal_def src_add_DataType_suffix)
  have 5: "dst (metaDict m ! 15) ''wkv'' = Some (PyStr ''quality_flags'')"
    unfolding n15 by (simp add: metaDict_literal_def dst_add_DataType_suffix)
  have 6: "src (metaDict m ! 15) ''SourceBand'' = Some (PyInt 16)"
    unfolding n15 by (simp add: metaDict_literal_def src_add_DataType_suffix)
  have 7: "dst (metaDict m ! 15) ''suffix'' = Some (PyStr ''l1'')"
    unfolding n15 by (simp add: metaDict_literal_def dst_add_DataType_suffix)
  from length_metaDict_literal 1 2 3 4 5 6 7 show ?thesis by blast
qed

theorem static_table_witness:
  "\<not> isl (outcome (Mapper_init demo ''f.N1'' ''ds'' ''MER_FRS_1_TEST'' False 500 1))
   \<and> length (metaDict (projr (outcome
        (Mapper_init demo ''f.N1'' ''ds'' ''MER_FRS_1_TEST'' False 500 1)))) = 20
   \<and> dst (metaDict (projr (outcome
        (Mapper_init demo ''f.N1'' ''ds'' ''MER_FRS_1_TEST'' False 500 1))) ! 15) ''suffix''
       = Some (PyStr ''l1'')"
proof -
  from demo_succeeds[of "''MER_FRS_1_TEST''" "''f.N1''" "''ds''" False 500 1]
  obtain m where m: "outcome (Mapper_init demo ''f.N1'' ''ds'' ''MER_FRS_1_TEST'' False 500 1) = Inr m"
    and s: "length (subVRTs m) = 4"
    by (auto simp: adsNames_def)
  from static_table[OF m] m s show ?thesis by simp
qed

text \<open>
  Claim C6. For each of the 16 static descriptors: when the entry of the table carries a
  wavelength, the suffix of the final descriptor is that wavelength, the same string; when
  it carries none, the suffix is the one the table gave it. The wavelength itself is never
  changed.
\<close>

theorem suffix_mirrors_wavelength:
  assumes "outcome (Mapper_init c fileName gdalDataset gdalMetadata geolocation zoomSize step) = Inr m"
    and "i < 16"
  shows "dst (metaDict m ! i) ''wavelength'' = dst (metaDict_literal fileName ! i) ''wavelength''
       \<and> (case dst (metaDict_literal fileName ! i) ''wavelength'' of
            Some wavelength \<Rightarrow> dst (metaDict m ! i) ''suffix'' = Some wavelength
          | None \<Rightarrow> dst (metaDict m ! i) ''suffix'' = dst (metaDict_literal fileName ! i) ''suffix'')"
proof -
  from metaDict_nth[OF assms(1)] assms(2)
  have "dst (metaDict m ! i) = dst (add_DataType_suffix (metaDict_literal fileName ! i))"
    by (cases "i = 15") auto
  then show ?thesis
    by (simp add: dst_add_DataType_suffix split: option.splits)
qed

theorem suffix_mirrors_wavelength_witness:
  "\<not> isl (outcome (Mapper_init demo ''f.N1'' ''ds'' ''MER_FRS_1_TEST'' False 500 1))
   \<and> dst (metaDict (projr (outcome
        (Mapper_init demo ''f.N1'' ''ds'' ''MER_FRS_1_TEST'' False 500 1))) ! 2) ''wavelength''
       = Some (PyStr ''490'')
   \<and> dst (metaDict (projr (outcome
        (Mapper_init demo ''f.N1'' ''ds'' ''MER_FRS_1_TEST'' False 500 1))) ! 2) ''suffix''
       = Some (PyStr ''490'')
   \<and> dst (metaDict (projr (outcome
        (Mapper_init demo ''f.N1'' ''ds'' ''MER_FRS_1_TEST'' False 500 1))) ! 15) ''wavelength''
       = None
   \<and> dst (metaDict (projr (outcome
        (Mapper_init demo ''f.N1'' ''ds'' ''MER_FRS_1_TEST'' False 500 1))) ! 15) ''suffix''
       = Some (PyStr ''l1'')"
proof -
  from demo_succeeds[of "''MER_FRS_1_TEST''" "''f.N1''" "''ds''" False 500 1]
  obtain m where m: "outcome (Mapper_init demo ''f.N1'' ''ds'' ''MER_FRS_1_TEST'' False 500 1) = Inr m"
    by auto
  have "(2::nat) < 16" and "(15::nat) < 16" by simp_all
  from suffix_mirrors_wavelength[OF m this(1)] suffix_mirrors_wavelength[OF m this(2)] m
  show ?thesis by (simp add: metaDict_literal_def)
qed

subsection \<open>Storage types and scale ratios\<close>

text \<open>
  Claim C2, as amended. After a successful construction the 16th descriptor carries no
  \<open>ScaleRatio\<close> key, and its \<open>DataType\<close> is the code 1 that the table gives it, which the
  default-fill loop leaves alone. (The code the source calls UInt16, and assigns by default,
  is 2.)
\<close>

theorem quality_flags_src:
  assumes "outcome (Mapper_init c fileName gdalDataset gdalMetadata geolocation zoomSize step) = Inr m"
  shows "src (metaDict m ! 15) ''ScaleRatio'' = None
       \<and> src (metaDict m ! 15) ''DataType'' = Some (PyInt 1)
       \<and> src (metaDict m ! 15) ''DataType'' = src (metaDict_literal fileName ! 15) ''DataType''"
proof -
  from metaDict_nth[OF assms]
  have "metaDict m ! 15 = add_DataType_suffix (metaDict_literal fileName ! 15)"
    by blast
  then show ?thesis
    by (simp add: src_add_DataType_suffix metaDict_literal_def)
qed

theorem quality_flags_src_witness:
  "\<not> isl (outcome (Mapper_init demo ''f.N1'' ''ds'' ''MER_FRS_1_TEST'' False 500 1))
   \<and> src (metaDict (projr (outcome
        (Mapper_init demo ''f.N1'' ''ds'' ''MER_FRS_1_TEST'' False 500 1))) ! 15) ''ScaleRatio''
       = None
   \<and> src (metaDict (projr (outcome
        (Mapper_init demo ''f.N1'' ''ds'' ''MER_FRS_1_TEST'' False 500 1))) ! 15) ''DataType''
       = Some (PyInt 1)"
proof -
  from demo_succeeds[of "''MER_FRS_1_TEST''" "''f.N1''" "''ds''" False 500 1]
  obtain m where m: "outcome (Mapper_init demo ''f.N1'' ''ds'' ''MER_FRS_1_TEST'' False 500 1) = Inr m"
    by auto
  from quality_flags_src[OF m] m show ?thesis by simp
qed

text \<open>
  The claim C2 as it was stated fails: in a successful run the \<open>DataType\<close> of the 16th
  descriptor is not the 16-bit-unsigned code.
\<close>

theorem quality_flags_UInt16_counterexample:
  "\<not> isl (outcome (Mapper_init demo ''f.N1'' ''ds'' ''MER_FRS_1_TEST'' False 500 1))
   \<and> src (metaDict (projr (outcome
        (Mapper_init demo ''f.N1'' ''ds'' ''MER_FRS_1_TEST'' False 500 1))) ! 15) ''DataType''
       \<noteq> Some (PyInt DataType_UInt16)"
proof -
  from demo_succeeds[of "''MER_FRS_1_TEST''" "''f.N1''" "''ds''" False 500 1]
  obtain m where m: "outcome (Mapper_init demo ''f.N1'' ''ds'' ''MER_FRS_1_TEST'' False 500 1) = Inr m"
    by auto
  from metaDict_nth[OF m]
  have "metaDict m ! 15 = add_DataType_suffix (metaDict_literal ''f.N1'' ! 15)"
    by blast
  then have "src (metaDict m ! 15) ''DataType'' = Some (PyInt 1)"
    by (simp add: src_add_DataType_suffix metaDict_literal_def)
  with m show ?thesis by (simp add: DataType_UInt16_def)
qed

text \<open>
  Claim C4, as amended. After a successful construction every static descriptor whose
  table entry has no \<open>DataType\<close> carries the default code for UInt16; these are the
  descriptors 1 to 15. The descriptors of the auxiliary rasters, appended after the
  default-fill loop, carry no \<open>DataType\<close>.
\<close>

theorem default_DataType_static:
  assumes "outcome (Mapper_init c fileName gdalDataset gdalMetadata geolocation zoomSize step) = Inr m"
  shows "(\<forall>i<16. src (metaDict_literal fileName ! i) ''DataType'' = None \<longrightarrow>
              src (metaDict m ! i) ''DataType'' = Some (PyInt DataType_UInt16))
       \<and> (\<forall>i<15. src (metaDict_literal fileName ! i) ''DataType'' = None)
       \<and> (\<forall>i. 16 \<le> i \<and> i < length (metaDict m) \<longrightarrow> src (metaDict m ! i) ''DataType'' = None)"
proof -
  from metaDict_nth[OF assms] obtain scales where
    len: "length (metaDict m) = 16 + length (subVRTs m)" and
    rad: "\<forall>i<15. metaDict m ! i =
        (add_DataType_suffix (metaDict_literal fileName ! i))
          \<lparr>src := (src (add_DataType_suffix (metaDict_literal fileName ! i)))
                    (''ScaleRatio'' \<mapsto> PyStr (py_str c (scales ! i)))\<rparr>" and
    fl: "metaDict m ! 15 = add_DataType_suffix (metaDict_literal fileName ! 15)" and
    ads: "drop 16 (metaDict m) = map ads_bandDict (subVRTs m)"
    by blast
  have 1: "\<forall>i<16. src (metaDict_literal fileName ! i) ''DataType'' = None \<longrightarrow>
              src (metaDict m ! i) ''DataType'' = Some (PyInt DataType_UInt16)"
  proof (intro allI impI)
    fix i :: nat
    assume "i < 16" and "src (metaDict_literal fileName ! i) ''DataType'' = None"
    then show "src (metaDict m ! i) ''DataType'' = Some (PyInt DataType_UInt16)"
      using rad fl
      by (cases "i = 15") (simp_all add: src_add_DataType_suffix DataType_UInt16_def)
  qed
  have "map (\<lambda>b. src b ''DataType'') (take 15 (metaDict_literal fileName)) = replicate 15 None"
    by (simp add: metaDict_literal_def numeral_eq_Suc)
  then have eq: "\<And>i. map (\<lambda>b. src b ''DataType'') (take 15 (metaDict_literal fileName)) ! i
              = replicate 15 None ! i"
    by (simp only:)
  have 2: "\<forall>i<15. src (metaDict_literal fileName ! i) ''DataType'' = None"
  proof (intro allI impI)
    fix i :: nat
    assume i: "i < 15"
    then have "map (\<lambda>b. src b ''DataType'') (take 15 (metaDict_literal fileName)) ! i
                 = src (metaDict_literal fileName ! i) ''DataType''"
      by (simp add: length_metaDict_literal)
    moreover from i have "replicate 15 (None :: pyval option) ! i = None"
      by simp
    ultimately show "src (metaDict_literal fileName ! i) ''DataType'' = None"
      using eq[of i] by simp
  qed
  have 3: "\<forall>i. 16 \<le> i \<and> i < length (metaDict m) \<longrightarrow> src (metaDict m ! i) ''DataType'' = None"
  proof (intro allI impI)
    fix i assume i: "16 \<le> i \<and> i < length (metaDict m)"
    then have k: "i - 16 < length (subVRTs m)" using len by arith
    from i have "metaDict m ! i = drop 16 (metaDict m) ! (i - 16)" by simp
    also have "\<dots> = ads_bandDict (subVRTs m ! (i - 16))"
      using k by (simp add: ads)
    finally show "src (metaDict m ! i) ''DataType'' = None"
      by (simp add: ads_bandDict_def)
  qed
  from 1 2 3 show ?thesis by blast
qed

theorem default_DataType_static_witness:
  "\<not> isl (outcome (Mapper_init demo ''f.N1'' ''ds'' ''MER_FRS_1_TEST'' False 500 1))
   \<and> src (metaDict_literal ''f.N1'' ! 2) ''DataType'' = None
   \<and> src (metaDict (projr (outcome
        (Mapper_init demo ''f.N1'' ''ds'' ''MER_FRS_1_TEST'' False 500 1))) ! 2) ''DataType''
       = Some (PyInt 2)
   \<and> 16 < length (metaDict (projr (outcome
        (Mapper_init demo ''f.N1'' ''ds'' ''MER_FRS_1_TEST'' False 500 1))))
   \<and> src (metaDict (projr (outcome
        (Mapper_init demo ''f.N1'' ''ds'' ''MER_FRS_1_TEST'' False 500 1))) ! 16) ''DataType''
       = None"
proof -
  from demo_succeeds[of "''MER_FRS_1_TEST''" "''f.N1''" "''ds''" False 500 1]
  obtain m where m: "outcome (Mapper_init demo ''f.N1'' ''ds'' ''MER_FRS_1_TEST'' False 500 1) = Inr m"
    and s: "length (subVRTs m) = 4"
    by (auto simp: adsNames_def)
  note T = default_DataType_static[OF m]
  from T have l: "16 < length (metaDict m)"
    using metaDict_nth[OF m] s by (elim exE conjE) simp
  from T have a: "\<forall>i<16. src (metaDict_literal ''f.N1'' ! i) ''DataType'' = None \<longrightarrow>
              src (metaDict m ! i) ''DataType'' = Some (PyInt DataType_UInt16)"
    and b: "\<forall>i<15. src (metaDict_literal ''f.N1'' ! i) ''DataType'' = None"
    and c: "\<forall>i. 16 \<le> i \<and> i < length (metaDict m) \<longrightarrow> src (metaDict m ! i) ''DataType'' = None"
    by blast+
  from b[rule_format, of 2] have b2: "src (metaDict_literal ''f.N1'' ! 2) ''DataType'' = None"
    by simp
  from a[rule_format, of 2] b2 have a2: "src (metaDict m ! 2) ''DataType'' = Some (PyInt 2)"
    by (simp add: DataType_UInt16_def)
  from c[rule_format, of 16] l have c16: "src (metaDict m ! 16) ''DataType'' = None"
    by simp
  from m l b2 a2 c16 show ?thesis by simp
qed

text \<open>
  The claim C4 as it was stated fails: in a successful run with auxiliary rasters the 17th
  descriptor, the first auxiliary one, has no explicit storage type and does not receive the
  default either.
\<close>

theorem default_DataType_ads_counterexample:
  "\<not> isl (outcome (Mapper_init demo ''f.N1'' ''ds'' ''MER_FRS_1_TEST'' False 500 1))
   \<and> 16 < length (metaDict (projr (outcome
        (Mapper_init demo ''f.N1'' ''ds'' ''MER_FRS_1_TEST'' False 500 1))))
   \<and> src (metaDict (projr (outcome
        (Mapper_init demo ''f.N1'' ''ds'' ''MER_FRS_1_TEST'' False 500 1))) ! 16) ''DataType''
       \<noteq> Some (PyInt DataType_UInt16)"
proof -
  from demo_succeeds[of "''MER_FRS_1_TEST''" "''f.N1''" "''ds''" False 500 1]
  obtain m where m: "outcome (Mapper_init demo ''f.N1'' ''ds'' ''MER_FRS_1_TEST'' False 500 1) = Inr m"
    and s: "subVRTs m = map (\<lambda>name. \<lparr>vrt_fileName = ''/vsimem/'' @ name,
                            band1_metadata = [''name'' \<mapsto> name]\<rparr>) adsNames"
    by auto
  from metaDict_nth[OF m] have l: "length (metaDict m) = 16 + length (subVRTs m)"
    and d: "drop 16 (metaDict m) = map ads_bandDict (subVRTs m)"
    by auto
  from l s have l16: "16 < length (metaDict m)" by (simp add: adsNames_def)
  then have "metaDict m ! 16 = drop 16 (metaDict m) ! 0" by simp
  also have "\<dots> = ads_bandDict (subVRTs m ! 0)"
    unfolding d using s by (simp add: adsNames_def)
  finally have "src (metaDict m ! 16) ''DataType'' = None"
    by (simp add: ads_bandDict_def)
  with m l16 show ?thesis by simp
qed

text \<open>
  Claim C5. A successful construction reads the scale coefficients once, from the 15 slots
  7 to 21, and for every \<open>i\<close> from 1 to 15 the \<open>ScaleRatio\<close> of the \<open>i\<close>-th descriptor
  is the string of the \<open>i\<close>-th coefficient returned (the indices below count from 0). The
  16th descriptor, the quality flags, gets none.
\<close>

theorem ScaleRatio_in_order:
  assumes "outcome (Mapper_init c fileName gdalDataset gdalMetadata geolocation zoomSize step) = Inr m"
  shows "\<exists>scales.
           read_scaling_gads c [7, 8, 9, 10, 11, 12, 13, 14, 15, 16, 17, 18, 19, 20, 21] = Inr scales
         \<and> filter is_read_scaling_gads
             (calls (Mapper_init c fileName gdalDataset gdalMetadata geolocation zoomSize step))
             = [Call_read_scaling_gads [7, 8, 9, 10, 11, 12, 13, 14, 15, 16, 17, 18, 19, 20, 21]]
         \<and> 15 \<le> length scales
         \<and> (\<forall>i<15. src (metaDict m ! i) ''ScaleRatio'' = Some (PyStr (py_str c (scales ! i))))
         \<and> src (metaDict m ! 15) ''ScaleRatio'' = None"
proof -
  have r: "[7..<22] = [7, 8, 9, 10, 11, 12, 13, 14, 15, 16, 17, 18, 19, 20, 21]"
    by (simp add: upt_rec)
  from metaDict_nth[OF assms] obtain scales where
    sc: "read_scaling_gads c [7..<22] = Inr scales" and len: "15 \<le> length scales" and
    rad: "\<forall>i<15. metaDict m ! i =
        (add_DataType_suffix (metaDict_literal fileName ! i))
          \<lparr>src := (src (add_DataType_suffix (metaDict_literal fileName ! i)))
                    (''ScaleRatio'' \<mapsto> PyStr (py_str c (scales ! i)))\<rparr>" and
    fl: "metaDict m ! 15 = add_DataType_suffix (metaDict_literal fileName ! 15)"
    by blast
  have 1: "filter is_read_scaling_gads
             (calls (Mapper_init c fileName gdalDataset gdalMetadata geolocation zoomSize step))
             = [Call_read_scaling_gads [7, 8, 9, 10, 11, 12, 13, 14, 15, 16, 17, 18, 19, 20, 21]]"
    unfolding calls_success[OF assms] r by simp
  have 2: "\<forall>i<15. src (metaDict m ! i) ''ScaleRatio'' = Some (PyStr (py_str c (scales ! i)))"
    using rad by simp
  have 3: "src (metaDict m ! 15) ''ScaleRatio'' = None"
    unfolding fl by (simp add: src_add_DataType_suffix metaDict_literal_def)
  from sc[unfolded r] 1 len 2 3 show ?thesis by blast
qed

theorem ScaleRatio_in_order_witness:
  "\<not> isl (outcome (Mapper_init demo ''f.N1'' ''ds'' ''MER_FRS_1_TEST'' False 500 1))
   \<and> src (metaDict (projr (outcome
        (Mapper_init demo ''f.N1'' ''ds'' ''MER_FRS_1_TEST'' False 500 1))) ! 0) ''ScaleRatio''
       = Some (PyStr ''1.0'')
   \<and> src (metaDict (projr (outcome
        (Mapper_init demo ''f.N1'' ''ds'' ''MER_FRS_1_TEST'' False 500 1))) ! 2) ''ScaleRatio''
       = Some (PyStr ''3.0'')
   \<and> src (metaDict (projr (outcome
        (Mapper_init demo ''f.N1'' ''ds'' ''MER_FRS_1_TEST'' False 500 1))) ! 14) ''ScaleRatio''
       = Some (PyStr ''15.0'')
   \<and> src (metaDict (projr (outcome
        (Mapper_init demo ''f.N1'' ''ds'' ''MER_FRS_1_TEST'' False 500 1))) ! 15) ''ScaleRatio''
       = None"
proof -
  from demo_succeeds[of "''MER_FRS_1_TEST''" "''f.N1''" "''ds''" False 500 1]
  obtain m where m: "outcome (Mapper_init demo ''f.N1'' ''ds'' ''MER_FRS_1_TEST'' False 500 1) = Inr m"
    by auto
  from ScaleRatio_in_order[OF m] obtain scales where
    sc: "read_scaling_gads demo [7, 8, 9, 10, 11, 12, 13, 14, 15, 16, 17, 18, 19, 20, 21] = Inr scales"
    and a: "\<forall>i<15. src (metaDict m ! i) ''ScaleRatio'' = Some (PyStr (py_str demo (scales ! i)))"
    and b: "src (metaDict m ! 15) ''ScaleRatio'' = None"
    by blast
  from sc have scales: "scales = [''1.0'', ''2.0'', ''3.0'', ''4.0'', ''5.0'', ''6.0'',
        ''7.0'', ''8.0'', ''9.0'', ''10.0'', ''11.0'', ''12.0'', ''13.0'', ''14.0'', ''15.0'']"
    by (simp add: demo_def)
  have s: "py_str demo = (\<lambda>s. s)" by (simp add: demo_def)
  from a[rule_format, of 0] a[rule_format, of 2] a[rule_format, of 14] b m
  show ?thesis by (simp add: scales s)
qed

subsection \<open>Auxiliary rasters and geolocation\<close>





end
